theory Spec2Isabelle
  imports Complex_Main
begin

section \<open>The packaging script \<open>ov_workload/setup.py\<close>\<close>

text \<open>
  The script under verification
  (\<open>examples/graphene_apps/cppopenvino/ov_workload/setup.py\<close>):
  \<^verbatim>\<open>
  import sys

  # This should only be run with python3
  if sys.version_info[0] < 3:
      print('ERROR: must run with python3')
      sys.exit(1)

  from setuptools import setup, find_packages

  setup(name='openvino_python_wrapper',
        version=0.6,
        description='Openvino python wrapper for Graphene',
        author='Hyperledger Avalon',
        url='https://github.com/hyperledger/avalon',
        packages=find_packages(),
        package_data={'': ['ov_workload_config.toml']},
        include_package_data=True,
        entry_points={}
        )
  \<close>
  It is modelled statement by statement. A statement transforms the world (what has
  been written to standard output, which calls the packaging routine has received) and
  either completes normally or raises \<open>SystemExit\<close>, which ends the process.
\<close>

subsection \<open>Python values\<close>

text \<open>
  The values the script builds. Python is dynamically typed, so a string, a float, a
  boolean, a list and a dict are alternatives of one type. \<open>PyFloat q\<close> is the float
  object written as the decimal literal \<open>q\<close> in the source; the script does no
  arithmetic on it. A dict is the list of its items in the order written.
\<close>

datatype py_value =
    PyStr string
  | PyFloat rat
  | PyBool bool
  | PyList "py_value list"
  | PyDict "(py_value \<times> py_value) list"

subsection \<open>The interpreter\<close>

text \<open>
  \<open>sys.version_info\<close> is the five-component tuple
  \<open>(major, minor, micro, releaselevel, serial)\<close>; \<open>sys.version_info[0]\<close> is the field
  \<open>major\<close>.
\<close>

record version_info =
  major :: int
  minor :: int
  micro :: int
  releaselevel :: string
  serial :: int

subsection \<open>The packaging library\<close>

text \<open>The keyword arguments of the one call of \<open>setup\<close>, in the order written.\<close>

record setup_kwargs =
  name :: py_value
  version :: py_value
  description :: py_value
  author :: py_value
  url :: py_value
  packages :: py_value
  package_data :: py_value
  include_package_data :: py_value
  entry_points :: py_value

text \<open>How a statement ends: normally, or by raising \<open>SystemExit\<close> with a status.\<close>

datatype outcome = Normal | SystemExit int

text \<open>
  \<open>setuptools\<close> is an external library, not part of the repository; it is a
  parameter of the model. \<open>find_packages\<close> is the list of package names that the call
  \<open>find_packages()\<close> returns for the directory the script runs in (a read-only scan);
  \<open>setup_outcome\<close> is how the call \<open>setup(**kwargs)\<close> ends: it returns, or it ends
  the process with a status of its own. The library is taken to be installed (the
  \<open>import\<close> on line 24 succeeds) and both calls are taken to return.
\<close>

record setuptools =
  find_packages :: "string list"
  setup_outcome :: "setup_kwargs \<Rightarrow> outcome"

subsection \<open>The world and the statements\<close>

text \<open>
  The world of a run: the characters the script has written to standard output, and the
  calls that the packaging routine has received, oldest first.
\<close>

record world =
  stdout :: string
  setup_calls :: "setup_kwargs list"

type_synonym stmt = "world \<Rightarrow> outcome \<times> world"

text \<open>\<open>print(s)\<close> writes \<open>s\<close> and a line feed to standard output.\<close>

definition print :: "string \<Rightarrow> stmt" where
  "print s w = (Normal, w\<lparr>stdout := stdout w @ s @ [CHR 0x0A]\<rparr>)"

text \<open>\<open>sys.exit(n)\<close> raises \<open>SystemExit(n)\<close>.\<close>

definition sys_exit :: "int \<Rightarrow> stmt" where
  "sys_exit n w = (SystemExit n, w)"

text \<open>
  Two statements in sequence: the second runs only when the first completes normally;
  a raised \<open>SystemExit\<close> propagates.
\<close>

definition seq :: "stmt \<Rightarrow> stmt \<Rightarrow> stmt" where
  "seq s1 s2 w = (case s1 w of (Normal, w') \<Rightarrow> s2 w' | (SystemExit n, w') \<Rightarrow> (SystemExit n, w'))"

text \<open>
  A call \<open>setup(**k)\<close>: the packaging routine receives the arguments, and the call ends
  as the library decides.
\<close>

definition setuptools_setup :: "setuptools \<Rightarrow> setup_kwargs \<Rightarrow> stmt" where
  "setuptools_setup lib k w = (setup_outcome lib k, w\<lparr>setup_calls := setup_calls w @ [k]\<rparr>)"

subsection \<open>The script\<close>

text \<open>Lines 19 to 22: the version guard, an \<open>if\<close> with no \<open>else\<close>.\<close>

definition version_guard :: "version_info \<Rightarrow> stmt" where
  "version_guard vi w =
     (if major vi < 3
      then seq (print ''ERROR: must run with python3'') (sys_exit 1) w
      else (Normal, w))"

text \<open>The whole module: the guard, then (lines 24 to 35) the call of \<open>setup\<close>.\<close>

definition setup_py :: "setuptools \<Rightarrow> version_info \<Rightarrow> stmt" where
  "setup_py lib vi =
     seq (version_guard vi)
       (setuptools_setup lib
          \<lparr>name = PyStr ''openvino_python_wrapper'',
           version = PyFloat (6 / 10),
           description = PyStr ''Openvino python wrapper for Graphene'',
           author = PyStr ''Hyperledger Avalon'',
           url = PyStr ''https://github.com/hyperledger/avalon'',
           packages = PyList (map PyStr (find_packages lib)),
           package_data = PyDict [(PyStr '''', PyList [PyStr ''ov_workload_config.toml''])],
           include_package_data = PyBool True,
           entry_points = PyDict []\<rparr>)"

text \<open>
  The exit status of the process: the status of an uncaught \<open>SystemExit\<close>, and 0 when
  the module runs to its end.
\<close>

definition exit_status :: "outcome \<Rightarrow> int" where
  "exit_status out = (case out of Normal \<Rightarrow> 0 | SystemExit n \<Rightarrow> n)"

subsection \<open>Example inputs\<close>

text \<open>Interpreters, a packaging library and the world of a process that has just started.\<close>

definition python_2_7 :: version_info where
  "python_2_7 = \<lparr>major = 2, minor = 7, micro = 18, releaselevel = ''final'', serial = 0\<rparr>"

definition python_3_0 :: version_info where
  "python_3_0 = \<lparr>major = 3, minor = 0, micro = 0, releaselevel = ''final'', serial = 0\<rparr>"

definition python_3_8 :: version_info where
  "python_3_8 = \<lparr>major = 3, minor = 8, micro = 10, releaselevel = ''final'', serial = 0\<rparr>"

definition example_setuptools :: setuptools where
  "example_setuptools = \<lparr>find_packages = [''ov_workload''], setup_outcome = (\<lambda>k. Normal)\<rparr>"

definition fresh_world :: world where
  "fresh_world = \<lparr>stdout = [], setup_calls = []\<rparr>"

section \<open>The two paths of the script\<close>

lemma version_guard_old:
  assumes "major vi < 3"
  shows "version_guard vi w =
    (SystemExit 1, w\<lparr>stdout := stdout w @ ''ERROR: must run with python3'' @ [CHR 0x0A]\<rparr>)"
  using assms by (simp add: version_guard_def seq_def print_def sys_exit_def)

lemma version_guard_new:
  assumes "\<not> major vi < 3"
  shows "version_guard vi w = (Normal, w)"
  using assms by (simp add: version_guard_def)

lemma setup_py_old:
  assumes "major vi < 3"
  shows "setup_py lib vi w =
    (SystemExit 1, w\<lparr>stdout := stdout w @ ''ERROR: must run with python3'' @ [CHR 0x0A]\<rparr>)"
  by (simp add: setup_py_def seq_def version_guard_old [OF assms])

lemma setup_py_new:
  assumes "\<not> major vi < 3"
  shows "setup_py lib vi w =
    setuptools_setup lib
      \<lparr>name = PyStr ''openvino_python_wrapper'',
       version = PyFloat (6 / 10),
       description = PyStr ''Openvino python wrapper for Graphene'',
       author = PyStr ''Hyperledger Avalon'',
       url = PyStr ''https://github.com/hyperledger/avalon'',
       packages = PyList (map PyStr (find_packages lib)),
       package_data = PyDict [(PyStr '''', PyList [PyStr ''ov_workload_config.toml''])],
       include_package_data = PyBool True,
       entry_points = PyDict []\<rparr> w"
  by (simp add: setup_py_def seq_def version_guard_new [OF assms])

text \<open>
  The calls of the packaging routine that a run adds to the world: none below Python 3,
  and otherwise the single call written in the source.
\<close>

lemma calls_made:
  assumes run: "setup_py lib vi w = (out, w')"
    and calls: "setup_calls w' = setup_calls w @ cs"
  shows "cs =
    (if major vi < 3 then []
     else [\<lparr>name = PyStr ''openvino_python_wrapper'',
       version = PyFloat (6 / 10),
       description = PyStr ''Openvino python wrapper for Graphene'',
       author = PyStr ''Hyperledger Avalon'',
       url = PyStr ''https://github.com/hyperledger/avalon'',
       packages = PyList (map PyStr (find_packages lib)),
       package_data = PyDict [(PyStr '''', PyList [PyStr ''ov_workload_config.toml''])],
       include_package_data = PyBool True,
       entry_points = PyDict []\<rparr>])"
proof (cases "major vi < 3")
  case True
  from run have "w' = w\<lparr>stdout := stdout w @ ''ERROR: must run with python3'' @ [CHR 0x0A]\<rparr>"
    by (simp add: setup_py_old [OF True])
  with calls True show ?thesis by simp
next
  case False
  from run have "setup_calls w' = setup_calls w @
     [\<lparr>name = PyStr ''openvino_python_wrapper'',
       version = PyFloat (6 / 10),
       description = PyStr ''Openvino python wrapper for Graphene'',
       author = PyStr ''Hyperledger Avalon'',
       url = PyStr ''https://github.com/hyperledger/avalon'',
       packages = PyList (map PyStr (find_packages lib)),
       package_data = PyDict [(PyStr '''', PyList [PyStr ''ov_workload_config.toml''])],
       include_package_data = PyBool True,
       entry_points = PyDict []\<rparr>]"
    by (auto simp add: setup_py_new [OF False] setuptools_setup_def)
  with calls False show ?thesis by simp
qed

lemmas example_defs =
  python_2_7_def python_3_0_def python_3_8_def example_setuptools_def fresh_world_def

lemmas script_defs =
  setup_py_def version_guard_def seq_def print_def sys_exit_def setuptools_setup_def
  exit_status_def

section \<open>Properties of the script\<close>

subsection \<open>The failure path\<close>

text \<open>
  Claim C1. On every interpreter whose major version is below 3, the script writes
  the line \<open>ERROR: must run with python3\<close> to standard output (the text, followed by
  the line feed that \<open>print\<close> appends) and nothing else, and the process ends
  with exit status 1.
\<close>

theorem old_interpreter_prints_error_exits_1:
  assumes "major vi < 3"
  shows "stdout (snd (setup_py lib vi w)) = stdout w @ ''ERROR: must run with python3'' @ [CHR 0x0A]
    \<and> fst (setup_py lib vi w) = SystemExit 1
    \<and> exit_status (fst (setup_py lib vi w)) = 1"
  by (simp add: setup_py_old [OF assms] exit_status_def)

theorem old_interpreter_prints_error_exits_1_witness:
  "major python_2_7 < 3
   \<and> stdout (snd (setup_py example_setuptools python_2_7 fresh_world))
       = ''ERROR: must run with python3'' @ [CHR 0x0A]
   \<and> fst (setup_py example_setuptools python_2_7 fresh_world) = SystemExit 1
   \<and> exit_status (fst (setup_py example_setuptools python_2_7 fresh_world)) = 1"
proof -
  have old: "major python_2_7 < 3" by (simp add: python_2_7_def)
  have "stdout fresh_world = []" by (simp add: fresh_world_def)
  with old old_interpreter_prints_error_exits_1 [OF old, of example_setuptools fresh_world]
  show ?thesis by (simp add: exit_status_def)
qed

subsection \<open>The success path\<close>



subsection \<open>Name, version and data file\<close>

text \<open>
  Claim C3. Whenever the script calls \<open>setup\<close> (\<open>k\<close> is any call that the run
  adds), the call carries the name \<open>openvino_python_wrapper\<close>, the version
  \<open>0.6\<close> and the data file \<open>ov_workload_config.toml\<close>, exactly as written.
\<close>

theorem setup_receives_name_version_data_file:
  assumes "setup_py lib vi w = (out, w')"
    and "setup_calls w' = setup_calls w @ cs"
    and "k \<in> set cs"
  shows "name k = PyStr ''openvino_python_wrapper''
    \<and> version k = PyFloat (6 / 10)
    \<and> package_data k = PyDict [(PyStr '''', PyList [PyStr ''ov_workload_config.toml''])]"
  using calls_made [OF assms(1,2)] assms(3) by (auto split: if_splits)

theorem setup_receives_name_version_data_file_witness:
  "setup_calls (snd (setup_py example_setuptools python_3_8 fresh_world)) \<noteq> []
   \<and> name (hd (setup_calls (snd (setup_py example_setuptools python_3_8 fresh_world))))
       = PyStr ''openvino_python_wrapper''
   \<and> version (hd (setup_calls (snd (setup_py example_setuptools python_3_8 fresh_world))))
       = PyFloat (6 / 10)
   \<and> package_data (hd (setup_calls (snd (setup_py example_setuptools python_3_8 fresh_world))))
       = PyDict [(PyStr '''', PyList [PyStr ''ov_workload_config.toml''])]"
proof -
  let ?r = "setup_py example_setuptools python_3_8 fresh_world"
  have run: "?r = (fst ?r, snd ?r)" by simp
  have calls: "setup_calls (snd ?r) = setup_calls fresh_world @ setup_calls (snd ?r)"
    by (simp add: fresh_world_def)
  have ne: "setup_calls (snd ?r) \<noteq> []"
    by (simp add: script_defs example_defs)
  then have mem: "hd (setup_calls (snd ?r)) \<in> set (setup_calls (snd ?r))" by simp
  from setup_receives_name_version_data_file [OF run calls mem] ne
  show ?thesis by simp
qed

subsection \<open>No packaging below Python 3\<close>

text \<open>
  Claim C4. On every interpreter whose major version is below 3, the script performs
  no packaging action: \<open>setup\<close> receives no call, so the packaging state is as it
  was, and the run is the same whatever the packaging library would have done.
\<close>

theorem old_interpreter_no_packaging:
  assumes "major vi < 3"
  shows "setup_calls (snd (setup_py lib vi w)) = setup_calls w
    \<and> setup_py lib vi w = setup_py lib' vi w"
  by (simp add: setup_py_old [OF assms])

theorem old_interpreter_no_packaging_witness:
  "major python_2_7 < 3
   \<and> setup_calls (snd (setup_py example_setuptools python_2_7 fresh_world)) = []
   \<and> setup_py example_setuptools python_2_7 fresh_world
       = setup_py \<lparr>find_packages = [], setup_outcome = (\<lambda>k. SystemExit 2)\<rparr>
           python_2_7 fresh_world"
proof -
  have old: "major python_2_7 < 3" by (simp add: python_2_7_def)
  note run = old_interpreter_no_packaging [OF old, of example_setuptools fresh_world
      "\<lparr>find_packages = [], setup_outcome = (\<lambda>k. SystemExit 2)\<rparr>"]
  have none: "setup_calls fresh_world = []" by (simp add: fresh_world_def)
  from old run [unfolded none] show ?thesis by blast
qed

subsection \<open>Entry points\<close>

text \<open>
  Claim C5. Whenever the script calls \<open>setup\<close>, the entry-point mapping passed is the
  empty dict: no executable hook is registered.
\<close>

theorem setup_receives_no_entry_points:
  assumes "setup_py lib vi w = (out, w')"
    and "setup_calls w' = setup_calls w @ cs"
    and "k \<in> set cs"
  shows "entry_points k = PyDict []"
  using calls_made [OF assms(1,2)] assms(3) by (auto split: if_splits)

theorem setup_receives_no_entry_points_witness:
  "setup_calls (snd (setup_py example_setuptools python_3_0 fresh_world)) \<noteq> []
   \<and> entry_points (hd (setup_calls (snd (setup_py example_setuptools python_3_0 fresh_world))))
       = PyDict []"
proof -
  let ?r = "setup_py example_setuptools python_3_0 fresh_world"
  have run: "?r = (fst ?r, snd ?r)" by simp
  have calls: "setup_calls (snd ?r) = setup_calls fresh_world @ setup_calls (snd ?r)"
    by (simp add: fresh_world_def)
  have ne: "setup_calls (snd ?r) \<noteq> []"
    by (simp add: script_defs example_defs)
  then have mem: "hd (setup_calls (snd ?r)) \<in> set (setup_calls (snd ?r))" by simp
  from setup_receives_no_entry_points [OF run calls mem] ne
  show ?thesis by simp
qed

subsection \<open>The registered metadata\<close>



subsection \<open>Termination\<close>


subsection \<open>The guard reads the major version only\<close>

text \<open>
  Claim C8. The version guard consults only \<open>sys.version_info[0]\<close>: on every
  interpreter with major version exactly 3, whatever its minor and micro version
  (Python 3.0 included), the guard passes without printing or exiting; and two
  interpreters with the same major version pass or fail the guard alike.
\<close>

theorem guard_reads_major_only:
  "(major vi = 3 \<longrightarrow> version_guard vi w = (Normal, w))
   \<and> (major vi = major vi' \<longrightarrow> version_guard vi w = version_guard vi' w)"
  by (simp add: version_guard_def)

theorem guard_reads_major_only_witness:
  "major python_3_0 = 3
   \<and> version_guard python_3_0 fresh_world = (Normal, fresh_world)
   \<and> major python_3_0 = major python_3_8
   \<and> version_guard python_3_0 fresh_world = version_guard python_3_8 fresh_world"
proof -
  have three: "major python_3_0 = 3" and same: "major python_3_0 = major python_3_8"
    by (simp_all add: python_3_0_def python_3_8_def)
  with guard_reads_major_only [of python_3_0 fresh_world python_3_8]
  show ?thesis by blast
qed

subsection \<open>The version is a float\<close>

text \<open>
  Claim C9. The version handed to \<open>setup\<close> is the float written \<open>0.6\<close>, a number,
  and not a string (in particular not the string \<open>"0.6"\<close>).
\<close>

theorem setup_receives_float_version:
  assumes "setup_py lib vi w = (out, w')"
    and "setup_calls w' = setup_calls w @ cs"
    and "k \<in> set cs"
  shows "version k = PyFloat (6 / 10) \<and> (\<forall>s. version k \<noteq> PyStr s)"
  using calls_made [OF assms(1,2)] assms(3) by (auto split: if_splits)

theorem setup_receives_float_version_witness:
  "setup_calls (snd (setup_py example_setuptools python_3_8 fresh_world)) \<noteq> []
   \<and> version (hd (setup_calls (snd (setup_py example_setuptools python_3_8 fresh_world))))
       = PyFloat (6 / 10)
   \<and> version (hd (setup_calls (snd (setup_py example_setuptools python_3_8 fresh_world))))
       \<noteq> PyStr ''0.6''"
proof -
  let ?r = "setup_py example_setuptools python_3_8 fresh_world"
  have run: "?r = (fst ?r, snd ?r)" by simp
  have calls: "setup_calls (snd ?r) = setup_calls fresh_world @ setup_calls (snd ?r)"
    by (simp add: fresh_world_def)
  have ne: "setup_calls (snd ?r) \<noteq> []"
    by (simp add: script_defs example_defs)
  then have mem: "hd (setup_calls (snd ?r)) \<in> set (setup_calls (snd ?r))" by simp
  from setup_receives_float_version [OF run calls mem] ne
  show ?thesis by simp
qed

subsection \<open>Determinism in the major version\<close>



end
